theory Spec2Isabelle
  imports Main
begin

section \<open>The poll table of \<open>src/api/eTagCacher.ts\<close>\<close>

text \<open>
  One entry of \<^verbatim>\<open>cache: Record<string, { etag: string; poll: boolean; retry: number }>\<close>.
  The field \<open>etag\<close> is optional in the model: \<open>setPoll\<close> on a key that has no entry spreads
  \<^verbatim>\<open>undefined\<close> and stores an object without an \<open>etag\<close> property, so reading it gives
  \<^verbatim>\<open>undefined\<close> (\<open>None\<close>). The counter \<open>retry\<close> starts at 0 and only ever grows by 1, so it
  is a natural number.
\<close>

record entry =
  etag :: "string option"
  poll :: bool
  retry :: nat

text \<open>
  The class \<open>EtagCacher\<close>: the constructor arguments \<open>tag\<close> and \<open>options\<close> (its three optional
  fields, \<open>None\<close> when left out) and the table. The option \<open>maxRetries\<close> and \<open>retryDelay\<close> are
  JavaScript numbers; they are integers here. The type \<open>'k\<close> is the element type \<open>K\<close> of the
  fetched data.
\<close>

record 'k EtagCacher =
  tag :: string
  maxRetries :: "int option"
  retryDelay :: "int option"
  isStatusPending :: "('k \<Rightarrow> bool) option"
  cache :: "string \<rightharpoonup> entry"

text \<open>\<^verbatim>\<open>const DEFAULT_OPTIONS = { maxRetries: 5, retryDelay: 1000 }\<close>\<close>

definition DEFAULT_maxRetries :: int where
  "DEFAULT_maxRetries = 5"

definition DEFAULT_retryDelay :: int where
  "DEFAULT_retryDelay = 1000"

text \<open>The operator \<^verbatim>\<open>a ?? b\<close>.\<close>

definition nullish :: "'a option \<Rightarrow> 'a \<Rightarrow> 'a" where
  "nullish a b = (case a of None \<Rightarrow> b | Some v \<Rightarrow> v)"

text \<open>The template string \<^verbatim>\<open>`${this.tag}.${key}`\<close>.\<close>

definition cacheKey :: "string \<Rightarrow> string \<Rightarrow> string" where
  "cacheKey tg key = tg @ ''.'' @ key"

text \<open>
  The constructor: \<^verbatim>\<open>this.cache = {}\<close>. Every property of \<^verbatim>\<open>Object.prototype\<close> has a name
  without a dot, and every key the class looks up contains one, so a lookup in the fresh
  object finds nothing.
\<close>

definition new_EtagCacher ::
  "string \<Rightarrow> int option \<Rightarrow> int option \<Rightarrow> ('k \<Rightarrow> bool) option \<Rightarrow> 'k EtagCacher" where
  "new_EtagCacher tg mr rd isp =
     \<lparr>tag = tg, maxRetries = mr, retryDelay = rd, isStatusPending = isp, cache = Map.empty\<rparr>"

subsection \<open>The host: pending timers and the dispatches made\<close>

text \<open>
  \<open>checkEtag\<close> hands the closure \<^verbatim>\<open>() => dispatch(this.api.util.invalidateTags([this.tag]))\<close>
  to \<^verbatim>\<open>setTimeout\<close> with a delay. A pending timer records the closure's captured values
  (the \<open>dispatch\<close> function it was given, of an opaque type \<open>'d\<close>, and the tag list) and the
  delay. The host keeps the pending timers and, for observation, the list of dispatches of an
  \<open>invalidateTags\<close> action that have happened.
\<close>

record 'd timer =
  callback_dispatch :: 'd
  callback_tags :: "string list"
  timeout :: int

record 'd host =
  timers :: "'d timer list"
  dispatched :: "('d \<times> string list) list"

definition setTimeout :: "'d \<Rightarrow> string list \<Rightarrow> int \<Rightarrow> 'd host \<Rightarrow> 'd host" where
  "setTimeout d tgs ms h =
     h\<lparr>timers := timers h @ [\<lparr>callback_dispatch = d, callback_tags = tgs, timeout = ms\<rparr>]\<rparr>"

text \<open>
  Running the closure of a timer: it calls \<open>dispatch\<close> on the \<open>invalidateTags\<close> action and does
  nothing else. It is given the whole world (the cacher and the host), as a JavaScript callback is.
\<close>

definition run_callback :: "'d timer \<Rightarrow> 'k EtagCacher \<times> 'd host \<Rightarrow> 'k EtagCacher \<times> 'd host" where
  "run_callback t w =
     (fst w, (snd w)\<lparr>dispatched := dispatched (snd w) @ [(callback_dispatch t, callback_tags t)]\<rparr>)"

subsection \<open>The methods\<close>

text \<open>
  The first three conjuncts of the condition of \<open>checkEtag\<close>, on the entry found: the entry is
  polling, and the ETag is the stored one or some element of the data is pending. An array and
  a function are truthy, so \<^verbatim>\<open>data && this.options.isStatusPending && data.some(...)\<close> is
  decided by their presence.
\<close>

definition hasPending :: "'k EtagCacher \<Rightarrow> 'k list option \<Rightarrow> bool" where
  "hasPending c data =
     (case data of
        None \<Rightarrow> False
      | Some ds \<Rightarrow> (case isStatusPending c of None \<Rightarrow> False | Some p \<Rightarrow> list_ex p ds))"

definition shouldContinue :: "'k EtagCacher \<Rightarrow> entry \<Rightarrow> string \<Rightarrow> 'k list option \<Rightarrow> bool" where
  "shouldContinue c e etg data \<longleftrightarrow>
     poll e \<and> (Some etg = etag e \<or> hasPending c data) \<and>
     int (retry e) < nullish (maxRetries c) DEFAULT_maxRetries"

definition checkEtag ::
  "'d \<Rightarrow> string \<Rightarrow> string \<Rightarrow> 'k list option \<Rightarrow> 'k EtagCacher \<times> 'd host \<Rightarrow> 'k EtagCacher \<times> 'd host" where
  "checkEtag dispatch key etg data w =
     (let c = fst w; h = snd w; ck = cacheKey (tag c) key;
          fresh = (c\<lparr>cache := (cache c)(ck \<mapsto> \<lparr>etag = Some etg, poll = False, retry = 0\<rparr>)\<rparr>, h)
      in case cache c ck of
           None \<Rightarrow> fresh
         | Some e \<Rightarrow>
             if shouldContinue c e etg data
             then (c\<lparr>cache := (cache c)(ck \<mapsto> e\<lparr>retry := retry e + 1\<rparr>)\<rparr>,
                   setTimeout dispatch [tag c] (nullish (retryDelay c) DEFAULT_retryDelay) h)
             else fresh)"

definition setPoll :: "string \<Rightarrow> 'k EtagCacher \<Rightarrow> 'k EtagCacher" where
  "setPoll key c =
     (let ck = cacheKey (tag c) key
      in c\<lparr>cache := (cache c)(ck \<mapsto>
            \<lparr>etag = (case cache c ck of None \<Rightarrow> None | Some e \<Rightarrow> etag e),
             poll = True, retry = 0\<rparr>)\<rparr>)"

definition stopPolling :: "string \<Rightarrow> 'k EtagCacher \<Rightarrow> 'k EtagCacher" where
  "stopPolling key c =
     (let ck = cacheKey (tag c) key
      in case cache c ck of
           None \<Rightarrow> c
         | Some e \<Rightarrow> c\<lparr>cache := (cache c)(ck \<mapsto> e\<lparr>poll := False\<rparr>)\<rparr>)"

record pollStatus =
  polling :: bool
  retries :: nat

definition getPollStatus :: "string \<Rightarrow> 'k EtagCacher \<Rightarrow> pollStatus option" where
  "getPollStatus key c =
     (case cache c (cacheKey (tag c) key) of
        None \<Rightarrow> None
      | Some e \<Rightarrow> Some \<lparr>polling = poll e, retries = retry e\<rparr>)"

subsection \<open>Sequences of calls\<close>

text \<open>
  The events that act on a cacher: the four methods, and the host firing the pending timer at
  a position of its queue (nothing happens when there is none there).
\<close>

datatype ('k, 'd) event =
    SetPoll string
  | StopPolling string
  | GetPollStatus string
  | CheckEtag 'd string string "'k list option"
  | FireTimer nat

fun step :: "'k EtagCacher \<times> 'd host \<Rightarrow> ('k, 'd) event \<Rightarrow> 'k EtagCacher \<times> 'd host" where
  "step w (SetPoll key) = (setPoll key (fst w), snd w)"
| "step w (StopPolling key) = (stopPolling key (fst w), snd w)"
| "step w (GetPollStatus key) = w"
| "step w (CheckEtag d key etg data) = checkEtag d key etg data w"
| "step w (FireTimer i) =
     (if i < length (timers (snd w))
      then run_callback (timers (snd w) ! i)
             (fst w, (snd w)\<lparr>timers := take i (timers (snd w)) @ drop (Suc i) (timers (snd w))\<rparr>)
      else w)"

definition run :: "'k EtagCacher \<times> 'd host \<Rightarrow> ('k, 'd) event list \<Rightarrow> 'k EtagCacher \<times> 'd host" where
  "run w evs = foldl step w evs"

definition idle :: "'d host" where
  "idle = \<lparr>timers = [], dispatched = []\<rparr>"

text \<open>The key a call is about, when the event is a call that writes the table.\<close>

fun written_key :: "('k, 'd) event \<Rightarrow> string option" where
  "written_key (SetPoll key) = Some key"
| "written_key (StopPolling key) = Some key"
| "written_key (CheckEtag d key etg data) = Some key"
| "written_key (GetPollStatus key) = None"
| "written_key (FireTimer i) = None"

fun is_stop :: "('k, 'd) event \<Rightarrow> bool" where
  "is_stop (StopPolling key) = True"
| "is_stop ev = False"

text \<open>
  Whether a call writes the entry stored under a composite key of the table, the last call of a
  sequence that does, and whether that last call is a \<open>stopPolling\<close>.
\<close>

definition writes :: "string \<Rightarrow> string \<Rightarrow> ('k, 'd) event \<Rightarrow> bool" where
  "writes tg ck ev \<longleftrightarrow>
     (case written_key ev of None \<Rightarrow> False | Some key \<Rightarrow> cacheKey tg key = ck)"

definition last_write :: "string \<Rightarrow> string \<Rightarrow> ('k, 'd) event list \<Rightarrow> ('k, 'd) event option" where
  "last_write tg ck evs = find (writes tg ck) (rev evs)"

definition stopped_last :: "string \<Rightarrow> string \<Rightarrow> ('k, 'd) event list \<Rightarrow> bool" where
  "stopped_last tg ck evs \<longleftrightarrow>
     (case last_write tg ck evs of None \<Rightarrow> False | Some ev \<Rightarrow> is_stop ev)"

section \<open>Basic facts\<close>

lemma cacheKey_inj [simp]: "cacheKey tg k = cacheKey tg k' \<longleftrightarrow> k = k'"
  by (simp add: cacheKey_def)

lemma tag_setPoll [simp]: "tag (setPoll key c) = tag c"
  by (simp add: setPoll_def Let_def)

lemma tag_stopPolling [simp]: "tag (stopPolling key c) = tag c"
  by (simp add: stopPolling_def Let_def split: option.splits)

lemma tag_checkEtag [simp]: "tag (fst (checkEtag d key etg data w)) = tag (fst w)"
  by (simp add: checkEtag_def Let_def split: option.splits)

lemma maxRetries_setPoll [simp]: "maxRetries (setPoll key c) = maxRetries c"
  by (simp add: setPoll_def Let_def)

lemma maxRetries_stopPolling [simp]: "maxRetries (stopPolling key c) = maxRetries c"
  by (simp add: stopPolling_def Let_def split: option.splits)

lemma maxRetries_checkEtag [simp]:
  "maxRetries (fst (checkEtag d key etg data w)) = maxRetries (fst w)"
  by (simp add: checkEtag_def Let_def split: option.splits)

subsection \<open>One step of a sequence\<close>

lemma run_Nil: "run w [] = w"
  by (simp add: run_def)

lemma run_snoc: "run w (evs @ [ev]) = step (run w evs) ev"
  by (simp add: run_def)

lemma tag_step [simp]: "tag (fst (step w ev)) = tag (fst w)"
  by (cases ev) (simp_all add: run_callback_def)

lemma tag_run [simp]: "tag (fst (run w evs)) = tag (fst w)"
  by (induction evs rule: rev_induct) (simp_all add: run_def)

lemma maxRetries_step [simp]: "maxRetries (fst (step w ev)) = maxRetries (fst w)"
  by (cases ev) (simp_all add: run_callback_def)

lemma maxRetries_run [simp]: "maxRetries (fst (run w evs)) = maxRetries (fst w)"
  by (induction evs rule: rev_induct) (simp_all add: run_def)

lemma last_write_snoc:
  "last_write tg ck (evs @ [ev]) = (if writes tg ck ev then Some ev else last_write tg ck evs)"
  by (simp add: last_write_def)

text \<open>An event that does not write a composite key leaves what is stored under it.\<close>

lemma step_unwritten:
  "\<not> writes (tag (fst w)) ck ev \<Longrightarrow> cache (fst (step w ev)) ck = cache (fst w) ck"
  by (cases ev)
     (auto simp: writes_def setPoll_def stopPolling_def checkEtag_def Let_def run_callback_def
           split: option.splits)

text \<open>
  An event that writes a composite key and leaves an entry that is not polling has reset the
  counter, unless it is a \<open>stopPolling\<close>.
\<close>

lemma step_written:
  "writes (tag (fst w)) ck ev \<Longrightarrow> cache (fst (step w ev)) ck = Some e \<Longrightarrow> \<not> poll e \<Longrightarrow>
     is_stop ev \<or> retry e = 0"
  by (cases ev)
     (auto simp: writes_def setPoll_def checkEtag_def Let_def shouldContinue_def
           split: option.splits if_splits)

text \<open>With a limit that is not negative, no event takes a counter above the limit.\<close>

lemma step_bounded:
  assumes "0 \<le> nullish (maxRetries (fst w)) DEFAULT_maxRetries"
    and "\<forall>e. cache (fst w) ck = Some e \<longrightarrow>
           int (retry e) \<le> nullish (maxRetries (fst w)) DEFAULT_maxRetries"
    and "cache (fst (step w ev)) ck = Some e'"
  shows "int (retry e') \<le> nullish (maxRetries (fst w)) DEFAULT_maxRetries"
  using assms
  by (cases ev)
     (auto simp: setPoll_def stopPolling_def checkEtag_def Let_def shouldContinue_def
           run_callback_def split: option.splits if_splits)

lemma unstopped_invariant:
  assumes "cache c0 = Map.empty"
  shows "(last_write (tag c0) ck evs = None \<longrightarrow> cache (fst (run (c0, h0) evs)) ck = None) \<and>
         (\<forall>e. cache (fst (run (c0, h0) evs)) ck = Some e \<longrightarrow> \<not> poll e \<longrightarrow>
              \<not> stopped_last (tag c0) ck evs \<longrightarrow> retry e = 0)"
proof (induction evs rule: rev_induct)
  case Nil
  show ?case using assms by (simp add: run_Nil)
next
  case (snoc ev evs)
  show ?case
  proof (cases "writes (tag c0) ck ev")
    case True
    then have w: "writes (tag (fst (run (c0, h0) evs))) ck ev" by simp
    show ?thesis
      using True step_written [OF w]
      by (auto simp: run_snoc last_write_snoc stopped_last_def)
  next
    case False
    then have "\<not> writes (tag (fst (run (c0, h0) evs))) ck ev" by simp
    then have "cache (fst (run (c0, h0) (evs @ [ev]))) ck = cache (fst (run (c0, h0) evs)) ck"
      by (simp add: run_snoc step_unwritten)
    with False snoc show ?thesis
      by (simp add: last_write_snoc stopped_last_def)
  qed
qed

lemma bounded_invariant:
  assumes "cache c0 = Map.empty" and "0 \<le> nullish (maxRetries c0) DEFAULT_maxRetries"
  shows "cache (fst (run (c0, h0) evs)) ck = Some e \<Longrightarrow>
           int (retry e) \<le> nullish (maxRetries c0) DEFAULT_maxRetries"
proof (induction evs arbitrary: e rule: rev_induct)
  case Nil
  then show ?case using assms by (simp add: run_Nil)
next
  case (snoc ev evs)
  have "int (retry e) \<le> nullish (maxRetries (fst (run (c0, h0) evs))) DEFAULT_maxRetries"
  proof (rule step_bounded)
    show "0 \<le> nullish (maxRetries (fst (run (c0, h0) evs))) DEFAULT_maxRetries"
      using assms(2) by simp
    show "\<forall>e. cache (fst (run (c0, h0) evs)) ck = Some e \<longrightarrow>
            int (retry e) \<le> nullish (maxRetries (fst (run (c0, h0) evs))) DEFAULT_maxRetries"
      using snoc.IH by simp
    show "cache (fst (step (run (c0, h0) evs) ev)) ck = Some e"
      using snoc.prems by (simp add: run_snoc)
  qed
  then show ?case by simp
qed

section \<open>The methods one by one\<close>

text \<open>
  C10. \<open>setPoll\<close> is idempotent on the poll table: calling it twice in succession with the
  same key gives exactly the cacher that calling it once gives.
\<close>

theorem setPoll_idempotent: "setPoll key (setPoll key c) = setPoll key c"
  by (simp add: setPoll_def Let_def split: option.splits)

text \<open>
  C7. \<open>setPoll\<close> on a key stores, under the composite key, an entry with \<open>poll = true\<close> and
  \<open>retry = 0\<close>; the entry keeps the \<open>etag\<close> of the entry that was there, and has none when
  there was no entry. The function is total and returns only the updated cacher.
\<close>

theorem setPoll_entry:
  "(cache c (cacheKey (tag c) key) = Some e \<longrightarrow>
      cache (setPoll key c) (cacheKey (tag c) key) =
        Some \<lparr>etag = etag e, poll = True, retry = 0\<rparr>) \<and>
   (cache c (cacheKey (tag c) key) = None \<longrightarrow>
      cache (setPoll key c) (cacheKey (tag c) key) =
        Some \<lparr>etag = None, poll = True, retry = 0\<rparr>)"
  by (simp add: setPoll_def Let_def)

theorem setPoll_entry_witness:
  "cache (setPoll ''test-key''
       ((new_EtagCacher ''TestTag'' None None None :: nat EtagCacher)
          \<lparr>cache := [''TestTag.test-key'' \<mapsto>
                       \<lparr>etag = Some ''old-etag'', poll = False, retry = 3\<rparr>]\<rparr>))
     ''TestTag.test-key'' = Some \<lparr>etag = Some ''old-etag'', poll = True, retry = 0\<rparr> \<and>
   cache (setPoll ''test-key'' (new_EtagCacher ''TestTag'' None None None :: nat EtagCacher))
     ''TestTag.test-key'' = Some \<lparr>etag = None, poll = True, retry = 0\<rparr>"
  using
    setPoll_entry [where c = "(new_EtagCacher ''TestTag'' None None None :: nat EtagCacher)
          \<lparr>cache := [''TestTag.test-key'' \<mapsto>
                       \<lparr>etag = Some ''old-etag'', poll = False, retry = 3\<rparr>]\<rparr>"
        and key = "''test-key''" and e = "\<lparr>etag = Some ''old-etag'', poll = False, retry = 3\<rparr>"]
    setPoll_entry [where c = "new_EtagCacher ''TestTag'' None None None :: nat EtagCacher"
        and key = "''test-key''"]
  by (simp add: new_EtagCacher_def cacheKey_def)

text \<open>
  C6. \<open>stopPolling\<close> on a key that has an entry sets \<open>poll\<close> to false and keeps the entry's
  \<open>retry\<close> and \<open>etag\<close>; on a key that has no entry it leaves the cacher as it is, and so
  creates no entry.
\<close>

theorem stopPolling_entry:
  "(cache c (cacheKey (tag c) key) = Some e \<longrightarrow>
      cache (stopPolling key c) (cacheKey (tag c) key) =
        Some \<lparr>etag = etag e, poll = False, retry = retry e\<rparr>) \<and>
   (cache c (cacheKey (tag c) key) = None \<longrightarrow> stopPolling key c = c)"
  by (simp add: stopPolling_def Let_def)

theorem stopPolling_entry_witness:
  "cache (stopPolling ''test-key''
       ((new_EtagCacher ''TestTag'' None None None :: nat EtagCacher)
          \<lparr>cache := [''TestTag.test-key'' \<mapsto>
                       \<lparr>etag = Some ''test-etag'', poll = True, retry = 2\<rparr>]\<rparr>))
     ''TestTag.test-key'' = Some \<lparr>etag = Some ''test-etag'', poll = False, retry = 2\<rparr> \<and>
   stopPolling ''nonexistent-key'' (new_EtagCacher ''TestTag'' None None None :: nat EtagCacher) =
     new_EtagCacher ''TestTag'' None None None"
  using
    stopPolling_entry [where c = "(new_EtagCacher ''TestTag'' None None None :: nat EtagCacher)
          \<lparr>cache := [''TestTag.test-key'' \<mapsto>
                       \<lparr>etag = Some ''test-etag'', poll = True, retry = 2\<rparr>]\<rparr>"
        and key = "''test-key''" and e = "\<lparr>etag = Some ''test-etag'', poll = True, retry = 2\<rparr>"]
    stopPolling_entry [where c = "new_EtagCacher ''TestTag'' None None None :: nat EtagCacher"
        and key = "''nonexistent-key''"]
  by (simp add: new_EtagCacher_def cacheKey_def)

text \<open>
  C5. \<open>checkEtag\<close> with key \<open>k\<close> and ETag \<open>m\<close>, when the table has no entry for the key or
  the entry is not polling, stores \<open>{etag: m, poll: false, retry: 0}\<close> and leaves the host as
  it is: no timer is set and nothing is dispatched.
\<close>

theorem checkEtag_not_polling:
  assumes "cache c (cacheKey (tag c) key) = None \<or>
           (\<exists>e. cache c (cacheKey (tag c) key) = Some e \<and> \<not> poll e)"
  shows "cache (fst (checkEtag d key etg data (c, h))) (cacheKey (tag c) key) =
           Some \<lparr>etag = Some etg, poll = False, retry = 0\<rparr> \<and>
         snd (checkEtag d key etg data (c, h)) = h"
  using assms by (auto simp: checkEtag_def Let_def shouldContinue_def)

theorem checkEtag_not_polling_witness:
  "cache (fst (checkEtag ''mockDispatch'' ''test-key'' ''new-etag'' None
                 (new_EtagCacher ''TestTag'' None None None :: nat EtagCacher, idle)))
     ''TestTag.test-key'' = Some \<lparr>etag = Some ''new-etag'', poll = False, retry = 0\<rparr> \<and>
   snd (checkEtag ''mockDispatch'' ''test-key'' ''new-etag'' None
          (new_EtagCacher ''TestTag'' None None None :: nat EtagCacher, idle)) = idle \<and>
   cache (fst (checkEtag ''mockDispatch'' ''test-key'' ''same-etag'' (Some [7])
                 ((new_EtagCacher ''TestTag'' None None (Some (\<lambda>n. 0 < n)) :: nat EtagCacher)
                    \<lparr>cache := [''TestTag.test-key'' \<mapsto>
                                 \<lparr>etag = Some ''same-etag'', poll = False, retry = 0\<rparr>]\<rparr>, idle)))
     ''TestTag.test-key'' = Some \<lparr>etag = Some ''same-etag'', poll = False, retry = 0\<rparr> \<and>
   snd (checkEtag ''mockDispatch'' ''test-key'' ''same-etag'' (Some [7])
          ((new_EtagCacher ''TestTag'' None None (Some (\<lambda>n. 0 < n)) :: nat EtagCacher)
             \<lparr>cache := [''TestTag.test-key'' \<mapsto>
                          \<lparr>etag = Some ''same-etag'', poll = False, retry = 0\<rparr>]\<rparr>, idle)) = idle"
  using
    checkEtag_not_polling [where c = "new_EtagCacher ''TestTag'' None None None :: nat EtagCacher"
        and key = "''test-key''" and d = "''mockDispatch''" and etg = "''new-etag''"
        and data = None and h = idle]
    checkEtag_not_polling [where
        c = "(new_EtagCacher ''TestTag'' None None (Some (\<lambda>n. 0 < n)) :: nat EtagCacher)
                    \<lparr>cache := [''TestTag.test-key'' \<mapsto>
                                 \<lparr>etag = Some ''same-etag'', poll = False, retry = 0\<rparr>]\<rparr>"
        and key = "''test-key''" and d = "''mockDispatch''" and etg = "''same-etag''"
        and data = "Some [7]" and h = idle]
  by (simp add: new_EtagCacher_def cacheKey_def)

text \<open>
  C1. \<open>checkEtag\<close> on a key whose entry is polling sets a timer and increments \<open>retry\<close> if and
  only if (the ETag equals the stored one, or a data list is given and \<open>isStatusPending\<close> is
  configured and some element of the list satisfies it) and the stored \<open>retry\<close> is below
  \<open>maxRetries\<close> (5 when not configured). Otherwise the entry becomes
  \<open>{etag, poll: false, retry: 0}\<close> and the host is left as it is. An empty data list has no
  element that satisfies the predicate.
\<close>

theorem checkEtag_decision:
  assumes "cache c (cacheKey (tag c) key) = Some e" and "poll e"
  shows "((timers (snd (checkEtag d key etg data (c, h))) =
             timers h @ [\<lparr>callback_dispatch = d, callback_tags = [tag c],
                          timeout = (case retryDelay c of None \<Rightarrow> 1000 | Some ms \<Rightarrow> ms)\<rparr>] \<and>
           cache (fst (checkEtag d key etg data (c, h))) (cacheKey (tag c) key) =
             Some \<lparr>etag = etag e, poll = True, retry = retry e + 1\<rparr>)
          \<longleftrightarrow>
          ((etag e = Some etg \<or>
             (\<exists>ds p. data = Some ds \<and> isStatusPending c = Some p \<and> (\<exists>x \<in> set ds. p x))) \<and>
           int (retry e) < (case maxRetries c of None \<Rightarrow> 5 | Some m \<Rightarrow> m))) \<and>
         (\<not> ((etag e = Some etg \<or>
             (\<exists>ds p. data = Some ds \<and> isStatusPending c = Some p \<and> (\<exists>x \<in> set ds. p x))) \<and>
           int (retry e) < (case maxRetries c of None \<Rightarrow> 5 | Some m \<Rightarrow> m))
          \<longrightarrow>
          cache (fst (checkEtag d key etg data (c, h))) (cacheKey (tag c) key) =
             Some \<lparr>etag = Some etg, poll = False, retry = 0\<rparr> \<and>
          snd (checkEtag d key etg data (c, h)) = h)"
  using assms
  by (auto simp: checkEtag_def Let_def shouldContinue_def hasPending_def nullish_def
      DEFAULT_maxRetries_def DEFAULT_retryDelay_def setTimeout_def list_ex_iff
      split: option.splits)

theorem checkEtag_decision_witness:
  "timers (snd (checkEtag ''mockDispatch'' ''test-key'' ''new-etag''
                  (Some [''completed'', ''pending''])
                  ((new_EtagCacher ''TestTag'' None None (Some (\<lambda>s. s = ''pending'')))
                     \<lparr>cache := [''TestTag.test-key'' \<mapsto>
                                  \<lparr>etag = Some ''old-etag'', poll = True, retry = 1\<rparr>]\<rparr>, idle))) =
     [\<lparr>callback_dispatch = ''mockDispatch'', callback_tags = [''TestTag''], timeout = 1000\<rparr>] \<and>
   cache (fst (checkEtag ''mockDispatch'' ''test-key'' ''new-etag''
                 (Some [''completed'', ''pending''])
                 ((new_EtagCacher ''TestTag'' None None (Some (\<lambda>s. s = ''pending'')))
                    \<lparr>cache := [''TestTag.test-key'' \<mapsto>
                                 \<lparr>etag = Some ''old-etag'', poll = True, retry = 1\<rparr>]\<rparr>, idle)))
     ''TestTag.test-key'' = Some \<lparr>etag = Some ''old-etag'', poll = True, retry = 2\<rparr> \<and>
   cache (fst (checkEtag ''mockDispatch'' ''test-key'' ''new-etag''
                 (Some [''completed'', ''completed''])
                 ((new_EtagCacher ''TestTag'' None None (Some (\<lambda>s. s = ''pending'')))
                    \<lparr>cache := [''TestTag.test-key'' \<mapsto>
                                 \<lparr>etag = Some ''old-etag'', poll = True, retry = 1\<rparr>]\<rparr>, idle)))
     ''TestTag.test-key'' = Some \<lparr>etag = Some ''new-etag'', poll = False, retry = 0\<rparr> \<and>
   snd (checkEtag ''mockDispatch'' ''test-key'' ''new-etag''
          (Some [''completed'', ''completed''])
          ((new_EtagCacher ''TestTag'' None None (Some (\<lambda>s. s = ''pending'')))
             \<lparr>cache := [''TestTag.test-key'' \<mapsto>
                          \<lparr>etag = Some ''old-etag'', poll = True, retry = 1\<rparr>]\<rparr>, idle)) = idle"
  using
    checkEtag_decision [where
        c = "(new_EtagCacher ''TestTag'' None None (Some (\<lambda>s. s = ''pending'')))
               \<lparr>cache := [''TestTag.test-key'' \<mapsto>
                            \<lparr>etag = Some ''old-etag'', poll = True, retry = 1\<rparr>]\<rparr>"
        and key = "''test-key''" and e = "\<lparr>etag = Some ''old-etag'', poll = True, retry = 1\<rparr>"
        and d = "''mockDispatch''" and etg = "''new-etag''"
        and data = "Some [''completed'', ''pending'']" and h = idle]
    checkEtag_decision [where
        c = "(new_EtagCacher ''TestTag'' None None (Some (\<lambda>s. s = ''pending'')))
               \<lparr>cache := [''TestTag.test-key'' \<mapsto>
                            \<lparr>etag = Some ''old-etag'', poll = True, retry = 1\<rparr>]\<rparr>"
        and key = "''test-key''" and e = "\<lparr>etag = Some ''old-etag'', poll = True, retry = 1\<rparr>"
        and d = "''mockDispatch''" and etg = "''new-etag''"
        and data = "Some [''completed'', ''completed'']" and h = idle]
  by (simp add: new_EtagCacher_def cacheKey_def idle_def)

text \<open>
  C4. When the condition of \<open>checkEtag\<close> holds for the entry of the key, the call itself stores
  the entry with \<open>retry\<close> one higher and with the same \<open>etag\<close> and \<open>poll\<close>; it sets exactly one
  timer, with the delay \<open>retryDelay\<close> (1000 when not configured), and dispatches nothing
  itself; the closure of that timer, once run, makes exactly one dispatch, of
  \<open>invalidateTags\<close> for the tag of the cacher.
\<close>

theorem checkEtag_continue:
  assumes "cache c (cacheKey (tag c) key) = Some e" and "shouldContinue c e etg data"
  shows "cache (fst (checkEtag d key etg data (c, h))) (cacheKey (tag c) key) =
           Some \<lparr>etag = etag e, poll = poll e, retry = retry e + 1\<rparr> \<and>
         timers (snd (checkEtag d key etg data (c, h))) =
           timers h @ [\<lparr>callback_dispatch = d, callback_tags = [tag c],
                        timeout = (case retryDelay c of None \<Rightarrow> 1000 | Some ms \<Rightarrow> ms)\<rparr>] \<and>
         dispatched (snd (checkEtag d key etg data (c, h))) = dispatched h \<and>
         dispatched (snd (run_callback (last (timers (snd (checkEtag d key etg data (c, h)))))
                            (checkEtag d key etg data (c, h)))) =
           dispatched h @ [(d, [tag c])]"
  using assms
  by (simp add: checkEtag_def Let_def nullish_def DEFAULT_retryDelay_def setTimeout_def
      run_callback_def split: option.splits)

theorem checkEtag_continue_witness:
  "shouldContinue
     ((new_EtagCacher ''TestTag'' (Some 5) (Some 2000) None :: nat EtagCacher)
        \<lparr>cache := [''TestTag.test-key'' \<mapsto>
                     \<lparr>etag = Some ''same-etag'', poll = True, retry = 2\<rparr>]\<rparr>)
     \<lparr>etag = Some ''same-etag'', poll = True, retry = 2\<rparr> ''same-etag'' None \<and>
   cache (fst (checkEtag ''mockDispatch'' ''test-key'' ''same-etag'' None
                 ((new_EtagCacher ''TestTag'' (Some 5) (Some 2000) None :: nat EtagCacher)
                    \<lparr>cache := [''TestTag.test-key'' \<mapsto>
                                 \<lparr>etag = Some ''same-etag'', poll = True, retry = 2\<rparr>]\<rparr>, idle)))
     ''TestTag.test-key'' = Some \<lparr>etag = Some ''same-etag'', poll = True, retry = 3\<rparr> \<and>
   snd (checkEtag ''mockDispatch'' ''test-key'' ''same-etag'' None
          ((new_EtagCacher ''TestTag'' (Some 5) (Some 2000) None :: nat EtagCacher)
             \<lparr>cache := [''TestTag.test-key'' \<mapsto>
                          \<lparr>etag = Some ''same-etag'', poll = True, retry = 2\<rparr>]\<rparr>, idle)) =
     \<lparr>timers = [\<lparr>callback_dispatch = ''mockDispatch'', callback_tags = [''TestTag''],
                 timeout = 2000\<rparr>],
      dispatched = []\<rparr>"
  using
    checkEtag_continue [where
        c = "(new_EtagCacher ''TestTag'' (Some 5) (Some 2000) None :: nat EtagCacher)
               \<lparr>cache := [''TestTag.test-key'' \<mapsto>
                            \<lparr>etag = Some ''same-etag'', poll = True, retry = 2\<rparr>]\<rparr>"
        and key = "''test-key''" and e = "\<lparr>etag = Some ''same-etag'', poll = True, retry = 2\<rparr>"
        and d = "''mockDispatch''" and etg = "''same-etag''" and data = None and h = idle]
  by (simp add: new_EtagCacher_def cacheKey_def idle_def shouldContinue_def nullish_def)

text \<open>
  C8. The closure that \<open>checkEtag\<close> hands to the timer, when it runs, leaves the cacher as it
  is, whatever the cacher and the host are then: the table after it is the table before it.
  The same holds for the host firing the timer at any position of its queue.
\<close>

theorem callback_frame:
  "fst (run_callback t (c, h)) = c \<and> fst (step (c, h) (FireTimer i)) = c"
  by (simp add: run_callback_def)

text \<open>
  C9. \<open>setPoll\<close>, \<open>stopPolling\<close> and \<open>checkEtag\<close> with key \<open>k\<close> leave what the table stores (an
  entry or nothing) under every composite key other than \<open>tag.k\<close>.
\<close>

theorem methods_frame:
  assumes "ck \<noteq> cacheKey (tag c) key"
  shows "cache (setPoll key c) ck = cache c ck \<and>
         cache (stopPolling key c) ck = cache c ck \<and>
         cache (fst (checkEtag d key etg data (c, h))) ck = cache c ck"
  using assms
  by (simp add: setPoll_def stopPolling_def checkEtag_def Let_def split: option.splits)

theorem methods_frame_witness:
  "cache (setPoll ''a''
       ((new_EtagCacher ''TestTag'' None None None :: nat EtagCacher)
          \<lparr>cache := [''TestTag.b'' \<mapsto> \<lparr>etag = Some ''v1'', poll = True, retry = 2\<rparr>]\<rparr>))
     ''TestTag.b'' = Some \<lparr>etag = Some ''v1'', poll = True, retry = 2\<rparr> \<and>
   cache (stopPolling ''a''
       ((new_EtagCacher ''TestTag'' None None None :: nat EtagCacher)
          \<lparr>cache := [''TestTag.b'' \<mapsto> \<lparr>etag = Some ''v1'', poll = True, retry = 2\<rparr>]\<rparr>))
     ''TestTag.b'' = Some \<lparr>etag = Some ''v1'', poll = True, retry = 2\<rparr> \<and>
   cache (fst (checkEtag ''mockDispatch'' ''a'' ''v1'' None
       ((new_EtagCacher ''TestTag'' None None None :: nat EtagCacher)
          \<lparr>cache := [''TestTag.b'' \<mapsto> \<lparr>etag = Some ''v1'', poll = True, retry = 2\<rparr>]\<rparr>, idle)))
     ''TestTag.b'' = Some \<lparr>etag = Some ''v1'', poll = True, retry = 2\<rparr>"
  using
    methods_frame [where ck = "''TestTag.b''" and key = "''a''"
        and c = "(new_EtagCacher ''TestTag'' None None None :: nat EtagCacher)
          \<lparr>cache := [''TestTag.b'' \<mapsto> \<lparr>etag = Some ''v1'', poll = True, retry = 2\<rparr>]\<rparr>"
        and d = "''mockDispatch''" and etg = "''v1''" and data = None and h = idle]
  by (simp add: new_EtagCacher_def cacheKey_def)

section \<open>Sequences of calls from the empty table\<close>

text \<open>
  C2, as stated, fails: after \<open>checkEtag\<close>, \<open>setPoll\<close>, a \<open>checkEtag\<close> with the same ETag
  (which counts one retry) and \<open>stopPolling\<close>, the entry is not polling and its \<open>retry\<close> is 1.
\<close>

theorem stopPolling_keeps_retry_counterexample:
  "cache (fst (run (new_EtagCacher ''Todos'' None None None :: nat EtagCacher, idle)
                 [CheckEtag ''dispatch'' ''global'' ''v1'' None,
                  SetPoll ''global'',
                  CheckEtag ''dispatch'' ''global'' ''v1'' None,
                  StopPolling ''global'']))
     ''Todos.global'' = Some \<lparr>etag = Some ''v1'', poll = False, retry = 1\<rparr>"
  by (simp add: run_def new_EtagCacher_def idle_def cacheKey_def checkEtag_def setPoll_def
      stopPolling_def shouldContinue_def hasPending_def nullish_def DEFAULT_maxRetries_def
      DEFAULT_retryDelay_def setTimeout_def Let_def)

text \<open>
  C2, amended. In every state reached from the empty table by a sequence of \<open>setPoll\<close>,
  \<open>stopPolling\<close>, \<open>getPollStatus\<close> and \<open>checkEtag\<close> calls and timer firings, every entry that
  is not polling has \<open>retry = 0\<close>, unless the last call that wrote the entry is a \<open>stopPolling\<close>.
\<close>

theorem unstopped_retry_zero:
  assumes "cache c0 = Map.empty"
    and "cache (fst (run (c0, h0) evs)) ck = Some e"
    and "\<not> poll e"
    and "\<not> stopped_last (tag c0) ck evs"
  shows "retry e = 0"
  using unstopped_invariant [OF assms(1), of ck evs h0] assms(2-4) by simp

theorem unstopped_retry_zero_witness:
  "cache (new_EtagCacher ''Todos'' None None None :: nat EtagCacher) = Map.empty \<and>
   cache (fst (run (new_EtagCacher ''Todos'' None None None :: nat EtagCacher, idle)
                 [CheckEtag ''dispatch'' ''global'' ''v1'' None,
                  SetPoll ''global'',
                  CheckEtag ''dispatch'' ''global'' ''v1'' None,
                  StopPolling ''global'',
                  GetPollStatus ''global'',
                  CheckEtag ''dispatch'' ''global'' ''v2'' None,
                  FireTimer 0]))
     ''Todos.global'' = Some \<lparr>etag = Some ''v2'', poll = False, retry = 0\<rparr> \<and>
   \<not> stopped_last ''Todos'' ''Todos.global''
       [CheckEtag ''dispatch'' ''global'' ''v1'' None,
        SetPoll ''global'',
        CheckEtag ''dispatch'' ''global'' ''v1'' None,
        StopPolling ''global'',
        GetPollStatus ''global'',
        CheckEtag ''dispatch'' ''global'' ''v2'' (None :: nat list option),
        FireTimer 0] \<and>
   retry \<lparr>etag = Some ''v2'', poll = False, retry = 0\<rparr> = 0"
  using
    unstopped_retry_zero [where ?c0.0 = "new_EtagCacher ''Todos'' None None None :: nat EtagCacher"
        and ?h0.0 = idle and ck = "''Todos.global''"
        and e = "\<lparr>etag = Some ''v2'', poll = False, retry = 0\<rparr>"
        and evs = "[CheckEtag ''dispatch'' ''global'' ''v1'' None,
                  SetPoll ''global'',
                  CheckEtag ''dispatch'' ''global'' ''v1'' None,
                  StopPolling ''global'',
                  GetPollStatus ''global'',
                  CheckEtag ''dispatch'' ''global'' ''v2'' None,
                  FireTimer 0]"]
  by (simp add: run_def new_EtagCacher_def idle_def cacheKey_def checkEtag_def setPoll_def
      stopPolling_def shouldContinue_def hasPending_def nullish_def DEFAULT_maxRetries_def
      DEFAULT_retryDelay_def setTimeout_def run_callback_def Let_def
      stopped_last_def last_write_def writes_def)

text \<open>
  C3, as stated, fails: with \<open>maxRetries = -1\<close>, the entry that \<open>setPoll\<close> creates has
  \<open>retry = 0\<close>, which is above the configured maximum.
\<close>

theorem negative_maxRetries_counterexample:
  "cache (fst (run (new_EtagCacher ''Todos'' (Some (- 1)) None None :: nat EtagCacher, idle)
                 [SetPoll ''global'' :: (nat, string) event]))
     ''Todos.global'' = Some \<lparr>etag = None, poll = True, retry = 0\<rparr> \<and>
   maxRetries (fst (run (new_EtagCacher ''Todos'' (Some (- 1)) None None :: nat EtagCacher, idle)
                 [SetPoll ''global'' :: (nat, string) event])) = Some (- 1) \<and>
   \<not> int (retry \<lparr>etag = None, poll = True, retry = 0\<rparr>) \<le> - 1"
  by (simp add: run_def new_EtagCacher_def idle_def cacheKey_def setPoll_def Let_def)

text \<open>
  C3, amended. When the configured \<open>maxRetries\<close> (5 when not configured) is not negative, in
  every state reached from the empty table by a sequence of calls and timer firings the
  \<open>retry\<close> of every entry is at most \<open>maxRetries\<close>. Whatever \<open>maxRetries\<close> is, \<open>checkEtag\<close> on
  an entry whose \<open>retry\<close> is not below it stores \<open>{etag, poll: false, retry: 0}\<close> and leaves the
  host as it is.
\<close>

theorem retry_bounded:
  assumes "cache c0 = Map.empty"
    and "0 \<le> (case maxRetries c0 of None \<Rightarrow> 5 | Some m \<Rightarrow> m)"
  shows "(cache (fst (run (c0, h0) evs)) ck = Some e \<longrightarrow>
            int (retry e) \<le> (case maxRetries c0 of None \<Rightarrow> 5 | Some m \<Rightarrow> m)) \<and>
         (cache c (cacheKey (tag c) key) = Some e' \<and>
          (case maxRetries c of None \<Rightarrow> 5 | Some m \<Rightarrow> m) \<le> int (retry e') \<longrightarrow>
            cache (fst (checkEtag d key etg data (c, h))) (cacheKey (tag c) key) =
              Some \<lparr>etag = Some etg, poll = False, retry = 0\<rparr> \<and>
            snd (checkEtag d key etg data (c, h)) = h)"
proof
  have m: "nullish (maxRetries c0) DEFAULT_maxRetries =
             (case maxRetries c0 of None \<Rightarrow> 5 | Some m \<Rightarrow> m)"
    by (simp add: nullish_def DEFAULT_maxRetries_def)
  show "cache (fst (run (c0, h0) evs)) ck = Some e \<longrightarrow>
          int (retry e) \<le> (case maxRetries c0 of None \<Rightarrow> 5 | Some m \<Rightarrow> m)"
    using bounded_invariant [of c0 h0 evs ck e] assms by (simp add: m)
next
  show "cache c (cacheKey (tag c) key) = Some e' \<and>
          (case maxRetries c of None \<Rightarrow> 5 | Some m \<Rightarrow> m) \<le> int (retry e') \<longrightarrow>
            cache (fst (checkEtag d key etg data (c, h))) (cacheKey (tag c) key) =
              Some \<lparr>etag = Some etg, poll = False, retry = 0\<rparr> \<and>
            snd (checkEtag d key etg data (c, h)) = h"
    by (auto simp: checkEtag_def Let_def shouldContinue_def nullish_def DEFAULT_maxRetries_def
        split: option.splits)
qed

theorem retry_bounded_witness:
  "cache (new_EtagCacher ''TestTag'' (Some 3) None None :: nat EtagCacher) = Map.empty \<and>
   (0::int) \<le> 3 \<and>
   cache (fst (run (new_EtagCacher ''TestTag'' (Some 3) None None :: nat EtagCacher, idle)
                 [CheckEtag ''dispatch'' ''test-key'' ''test-etag'' None,
                  SetPoll ''test-key'',
                  CheckEtag ''dispatch'' ''test-key'' ''test-etag'' None,
                  CheckEtag ''dispatch'' ''test-key'' ''test-etag'' None,
                  CheckEtag ''dispatch'' ''test-key'' ''test-etag'' None]))
     ''TestTag.test-key'' = Some \<lparr>etag = Some ''test-etag'', poll = True, retry = 3\<rparr> \<and>
   int (retry \<lparr>etag = Some ''test-etag'', poll = True, retry = 3\<rparr>) \<le> 3 \<and>
   checkEtag ''dispatch'' ''test-key'' ''test-etag'' None
     ((new_EtagCacher ''TestTag'' (Some 3) None None :: nat EtagCacher)
        \<lparr>cache := [''TestTag.test-key'' \<mapsto>
                     \<lparr>etag = Some ''test-etag'', poll = True, retry = 3\<rparr>]\<rparr>, idle) =
     ((new_EtagCacher ''TestTag'' (Some 3) None None :: nat EtagCacher)
        \<lparr>cache := [''TestTag.test-key'' \<mapsto>
                     \<lparr>etag = Some ''test-etag'', poll = False, retry = 0\<rparr>]\<rparr>, idle)"
  using
    retry_bounded [where ?c0.0 = "new_EtagCacher ''TestTag'' (Some 3) None None :: nat EtagCacher"
        and ?h0.0 = idle and ck = "''TestTag.test-key''"
        and e = "\<lparr>etag = Some ''test-etag'', poll = True, retry = 3\<rparr>"
        and evs = "[CheckEtag ''dispatch'' ''test-key'' ''test-etag'' None,
                  SetPoll ''test-key'',
                  CheckEtag ''dispatch'' ''test-key'' ''test-etag'' None,
                  CheckEtag ''dispatch'' ''test-key'' ''test-etag'' None,
                  CheckEtag ''dispatch'' ''test-key'' ''test-etag'' None]"
        and c = "(new_EtagCacher ''TestTag'' (Some 3) None None :: nat EtagCacher)
                   \<lparr>cache := [''TestTag.test-key'' \<mapsto>
                     \<lparr>etag = Some ''test-etag'', poll = True, retry = 3\<rparr>]\<rparr>"
        and key = "''test-key''"
        and e' = "\<lparr>etag = Some ''test-etag'', poll = True, retry = 3\<rparr>"
        and d = "''dispatch''" and etg = "''test-etag''" and data = None and h = idle]
  by (simp add: run_def new_EtagCacher_def idle_def cacheKey_def checkEtag_def setPoll_def
      shouldContinue_def hasPending_def nullish_def DEFAULT_maxRetries_def
      DEFAULT_retryDelay_def setTimeout_def Let_def)

end
